theory Spec2Isabelle
  imports Main "HOL-Library.Word" "HOL-Library.Sublist"
begin

section \<open>adoptium-jdk-dl: download, verify and extract Adoptium JDK builds\<close>

text \<open>
  A shallow embedding of \<^verbatim>\<open>adoptium-jdk-dl.py\<close>. Every function of the script is
  a HOL function of the same name. What the script takes from the outside world is a
  field of the record \<open>env\<close> (the host's machine identifier, the HTTP responses, the
  JSON parser, the SHA-256 digest, the tar decoders, the names of temporary
  directories); what it changes is the record \<open>state\<close> (the file system, and the
  sequence of observable events: HTTP requests, printed lines, the printed JSON
  document). A Python exception is a value \<open>Inl e\<close> of the result.
\<close>

subsection \<open>Data\<close>

type_synonym byte = "8 word"

text \<open>Parsed JSON. An object keeps its keys in order, as a Python dict does.\<close>

datatype json =
    JNull
  | JBool bool
  | JNum int
  | JStr string
  | JArr "json list"
  | JObj "(string \<times> json) list"

text \<open>
  The exceptions the script can raise. The first five are raised by the script itself
  (as \<^verbatim>\<open>Exception\<close> or \<^verbatim>\<open>ValueError\<close> with a message); the others come from
  Python's runtime and libraries.
\<close>

datatype error =
    UnsupportedArchitecture
  | CatalogEmpty
  | FilenameMissing string
  | ChecksumMismatch string
  | UnsupportedArchiveFormat string
  | KeyError string
  | IndexError
  | TypeError
  | AttributeError
  | ValueError
  | HexError
  | OSError
  | NameError

datatype node = Dir | File "byte list" | Doc json

datatype event =
    Request string
  | Print string
  | PrintExc error
  | Dump json

record state =
  fs :: "string \<Rightarrow> node option"
  log :: "event list"
  tmp_count :: nat

record response =
  resp_filename :: "string option"
  resp_body :: "byte list"

datatype tar_mode = Gz | Bz2

record tarinfo =
  tarinfo_name :: string
  tarinfo_isdir :: bool
  tarinfo_data :: "byte list"

record env =
  host_system :: string
  host_machine :: string
  urlopen :: "string \<Rightarrow> error + response"
  json_loads :: "byte list \<Rightarrow> error + json"
  sha256 :: "byte list \<Rightarrow> byte list"
  tarfile_open :: "tar_mode \<Rightarrow> byte list \<Rightarrow> error + tarinfo list"
  mkdtemp :: "nat \<Rightarrow> string"
  abspath :: "string \<Rightarrow> string"

type_synonym asset = "(string \<times> json) list"

subsection \<open>Python's dictionaries, lists and strings\<close>

text \<open>\<^verbatim>\<open>d[k] = v\<close>: an existing key keeps its place, a new one goes last.\<close>

fun setitem :: "string \<Rightarrow> json \<Rightarrow> asset \<Rightarrow> asset" where
  "setitem k v [] = [(k, v)]"
| "setitem k v (p # ps) = (if fst p = k then (k, v) # ps else p # setitem k v ps)"

text \<open>\<^verbatim>\<open>d[k]\<close> on a dict.\<close>

definition dict_getitem :: "(string \<times> json) list \<Rightarrow> string \<Rightarrow> error + json" where
  "dict_getitem d k = (case map_of d k of None \<Rightarrow> Inl (KeyError k) | Some v \<Rightarrow> Inr v)"

text \<open>\<^verbatim>\<open>x[k]\<close> with a string key, on any JSON value.\<close>

definition getitem :: "json \<Rightarrow> string \<Rightarrow> error + json" where
  "getitem x k = (case x of JObj d \<Rightarrow> dict_getitem d k | _ \<Rightarrow> Inl TypeError)"

text \<open>\<^verbatim>\<open>x.get(k)\<close>: only a dict has the method; a missing key gives \<^verbatim>\<open>None\<close>.\<close>

definition get_method :: "json \<Rightarrow> string \<Rightarrow> error + json" where
  "get_method x k =
     (case x of
        JObj d \<Rightarrow> (case map_of d k of None \<Rightarrow> Inr JNull | Some v \<Rightarrow> Inr v)
      | _ \<Rightarrow> Inl AttributeError)"

text \<open>\<^verbatim>\<open>len(x)\<close>.\<close>

definition py_len :: "json \<Rightarrow> error + nat" where
  "py_len x =
     (case x of
        JArr xs \<Rightarrow> Inr (length xs)
      | JObj d \<Rightarrow> Inr (length d)
      | JStr s \<Rightarrow> Inr (length s)
      | _ \<Rightarrow> Inl TypeError)"

text \<open>The position a list index denotes: a negative index counts from the end.\<close>

definition list_position :: "nat \<Rightarrow> int \<Rightarrow> nat option" where
  "list_position n i =
     (let j = (if i < 0 then int n + i else i)
      in if 0 \<le> j \<and> j < int n then Some (nat j) else None)"

text \<open>\<^verbatim>\<open>x[-1]\<close>.\<close>

definition getitem_last :: "json \<Rightarrow> error + json" where
  "getitem_last x =
     (case x of
        JArr xs \<Rightarrow>
          (case list_position (length xs) (- 1) of
             None \<Rightarrow> Inl IndexError
           | Some j \<Rightarrow> Inr (xs ! j))
      | JStr s \<Rightarrow>
          (case list_position (length s) (- 1) of
             None \<Rightarrow> Inl IndexError
           | Some j \<Rightarrow> Inr (JStr [s ! j]))
      | JObj d \<Rightarrow> Inl (KeyError ''-1'')
      | _ \<Rightarrow> Inl TypeError)"

definition endswith :: "string \<Rightarrow> string \<Rightarrow> bool" where
  "endswith s suf =
     (length suf \<le> length s \<and> drop (length s - length suf) s = suf)"

text \<open>\<^verbatim>\<open>os.path.dirname\<close> and \<^verbatim>\<open>os.path.join\<close> (posixpath).\<close>

definition rstrip_slash :: "string \<Rightarrow> string" where
  "rstrip_slash s = rev (dropWhile (\<lambda>c. c = CHR ''/'') (rev s))"

definition dirname :: "string \<Rightarrow> string" where
  "dirname p =
     (let head = rev (dropWhile (\<lambda>c. c \<noteq> CHR ''/'') (rev p))
      in if head \<noteq> [] \<and> head \<noteq> replicate (length head) (CHR ''/'')
         then rstrip_slash head else head)"

definition basename :: "string \<Rightarrow> string" where
  "basename p = rev (takeWhile (\<lambda>c. c \<noteq> CHR ''/'') (rev p))"

definition path_join :: "string \<Rightarrow> string \<Rightarrow> string" where
  "path_join a b =
     (if b \<noteq> [] \<and> hd b = CHR ''/'' then b
      else if a = [] \<or> last a = CHR ''/'' then a @ b
      else a @ ''/'' @ b)"

text \<open>\<^verbatim>\<open>urllib.parse.urlencode\<close>: every key and value goes through \<^verbatim>\<open>quote_plus\<close>.\<close>

definition always_safe :: "char \<Rightarrow> bool" where
  "always_safe c =
     (let n = (of_char c :: nat)
      in (48 \<le> n \<and> n \<le> 57) \<or> (65 \<le> n \<and> n \<le> 90) \<or> (97 \<le> n \<and> n \<le> 122)
         \<or> c = CHR ''_'' \<or> c = CHR ''.'' \<or> c = CHR ''-'' \<or> c = CHR ''~'')"

definition hex_upper :: "nat \<Rightarrow> char" where
  "hex_upper d = (if d < 10 then char_of (48 + d) else char_of (55 + d))"

definition quote_plus :: "string \<Rightarrow> string" where
  "quote_plus s =
     concat (map (\<lambda>c. if always_safe c then [c]
                       else if c = CHR '' '' then ''+''
                       else [CHR ''%'', hex_upper ((of_char c :: nat) div 16),
                             hex_upper ((of_char c :: nat) mod 16)]) s)"

fun urlencode :: "(string \<times> string) list \<Rightarrow> string" where
  "urlencode [] = []"
| "urlencode [(k, v)] = quote_plus k @ ''='' @ quote_plus v"
| "urlencode ((k, v) # q # qs) = quote_plus k @ ''='' @ quote_plus v @ ''&'' @ urlencode (q # qs)"

text \<open>\<^verbatim>\<open>codecs.decode(s, 'hex')\<close>: two hexadecimal digits of either case per byte.\<close>

definition hex_val :: "char \<Rightarrow> nat option" where
  "hex_val c =
     (let n = (of_char c :: nat)
      in if 48 \<le> n \<and> n \<le> 57 then Some (n - 48)
         else if 97 \<le> n \<and> n \<le> 102 then Some (n - 87)
         else if 65 \<le> n \<and> n \<le> 70 then Some (n - 55)
         else None)"

fun unhexlify :: "string \<Rightarrow> byte list option" where
  "unhexlify [] = Some []"
| "unhexlify [c] = None"
| "unhexlify (a # b # cs) =
     (case hex_val a of None \<Rightarrow> None
      | Some h \<Rightarrow>
        (case hex_val b of None \<Rightarrow> None
         | Some l \<Rightarrow>
           (case unhexlify cs of None \<Rightarrow> None
            | Some r \<Rightarrow> Some (of_nat (16 * h + l) # r))))"

definition hex_decode :: "json \<Rightarrow> error + byte list" where
  "hex_decode x =
     (case x of
        JStr s \<Rightarrow> (case unhexlify s of None \<Rightarrow> Inl HexError | Some bs \<Rightarrow> Inr bs)
      | _ \<Rightarrow> Inl TypeError)"

subsection \<open>Effects\<close>

definition emit :: "event \<Rightarrow> state \<Rightarrow> state" where
  "emit e st = st\<lparr>log := log st @ [e]\<rparr>"

definition write_node :: "string \<Rightarrow> node \<Rightarrow> state \<Rightarrow> state" where
  "write_node p n st = st\<lparr>fs := (fs st)(p \<mapsto> n)\<rparr>"

text \<open>\<^verbatim>\<open>open(p, 'rb')\<close> and reading: only a regular file can be read.\<close>

definition open_rb :: "state \<Rightarrow> string \<Rightarrow> error + byte list" where
  "open_rb st p = (case fs st p of Some (File bs) \<Rightarrow> Inr bs | _ \<Rightarrow> Inl OSError)"

text \<open>\<^verbatim>\<open>open(p, 'w')\<close>: a directory cannot be opened for writing.\<close>

definition writable :: "state \<Rightarrow> string \<Rightarrow> bool" where
  "writable st p = (fs st p \<noteq> Some Dir)"

definition is_under :: "string \<Rightarrow> string \<Rightarrow> bool" where
  "is_under d p = (p = d \<or> take (length d + 1) p = d @ ''/'')"

text \<open>Leaving a \<^verbatim>\<open>TemporaryDirectory\<close> block removes the directory and all below it.\<close>

definition cleanup :: "string \<Rightarrow> state \<Rightarrow> state" where
  "cleanup d st = st\<lparr>fs := (\<lambda>p. if is_under d p then None else fs st p)\<rparr>"

subsection \<open>fetch\_adoptium\<close>

definition api_url :: "string \<Rightarrow> string \<Rightarrow> string" where
  "api_url version architecture =
     ''https://api.adoptium.net/v3/assets/latest/'' @ version @ ''/hotspot'' @ ''?'' @
     urlencode [(''architecture'', architecture), (''image_type'', ''jdk''),
                (''os'', ''linux''), (''vendor'', ''eclipse'')]"

text \<open>
  The last three statements of \<^verbatim>\<open>fetch_adoptium\<close>, on the parsed response:
  \<^verbatim>\<open>if len(data) <= 0: raise Exception(...)\<close>, then \<^verbatim>\<open>return data[-1]\<close>.
\<close>

definition select_asset :: "json \<Rightarrow> error + json" where
  "select_asset data =
     (case py_len data of
        Inl e \<Rightarrow> Inl e
      | Inr n \<Rightarrow> if n \<le> 0 then Inl CatalogEmpty else getitem_last data)"

definition fetch_adoptium :: "env \<Rightarrow> string \<Rightarrow> string \<Rightarrow> state \<Rightarrow> (error + json) \<times> state" where
  "fetch_adoptium env version architecture st =
     (let st1 = emit (Request (api_url version architecture)) st
      in case urlopen env (api_url version architecture) of
           Inl e \<Rightarrow> (Inl e, st1)
         | Inr r \<Rightarrow>
           (case json_loads env (resp_body r) of
              Inl e \<Rightarrow> (Inl e, st1)
            | Inr data \<Rightarrow> (select_asset data, st1)))"

subsection \<open>download\_asset\<close>

text \<open>
  \<^verbatim>\<open>urllib.request.Request(url)\<close> refuses what is not a URL string. The file is
  written under the name the response's headers give.
\<close>

definition download_asset :: "env \<Rightarrow> json \<Rightarrow> string \<Rightarrow> state \<Rightarrow> (error + string) \<times> state" where
  "download_asset env url tempdir st =
     (case url of
        JStr u \<Rightarrow>
          (let st1 = emit (Request u) st
           in case urlopen env u of
                Inl e \<Rightarrow> (Inl e, st1)
              | Inr r \<Rightarrow>
                (case resp_filename r of
                   None \<Rightarrow> (Inl (FilenameMissing u), st1)
                 | Some filename \<Rightarrow>
                   (let asset_name = path_join tempdir filename;
                        st2 = emit (Print (''downloading asset: '' @ u @ '' to '' @ asset_name)) st1
                    in if writable st2 asset_name
                       then (Inr asset_name, write_node asset_name (File (resp_body r)) st2)
                       else (Inl OSError, st2))))
      | _ \<Rightarrow> (Inl ValueError, st))"

subsection \<open>verify\_asset\<close>

definition chunk_size :: nat where
  "chunk_size = 8192"

text \<open>
  The reading loop \<^verbatim>\<open>while chunk := asset.read(8192): h.update(chunk)\<close>. The first
  argument is what is left of the file, the second what the hash object has been fed.
\<close>

function read_loop :: "byte list \<Rightarrow> byte list \<Rightarrow> byte list" where
  "read_loop rest h =
     (let chunk = take chunk_size rest
      in if chunk = [] then h else read_loop (drop chunk_size rest) (h @ chunk))"
  by pat_completeness auto
termination
  by (relation "measure (\<lambda>(rest, h). length rest)") (auto simp: chunk_size_def)

declare read_loop.simps [simp del]

definition verify_asset :: "env \<Rightarrow> asset \<Rightarrow> state \<Rightarrow> error + bool" where
  "verify_asset env asset st =
     (case dict_getitem asset ''checksum'' of
        Inl e \<Rightarrow> Inl e
      | Inr c \<Rightarrow>
        (case hex_decode c of
           Inl e \<Rightarrow> Inl e
         | Inr checksum \<Rightarrow>
           (case dict_getitem asset ''package'' of
              Inl e \<Rightarrow> Inl e
            | Inr (JStr p) \<Rightarrow>
              (case open_rb st p of
                 Inl e \<Rightarrow> Inl e
               | Inr contents \<Rightarrow> Inr (checksum = sha256 env (read_loop contents [])))
            | Inr _ \<Rightarrow> Inl TypeError)))"

subsection \<open>extract\_asset\<close>

text \<open>The suffix dispatch that opens \<^verbatim>\<open>extract_asset\<close>.\<close>

definition archive_mode :: "string \<Rightarrow> error + tar_mode" where
  "archive_mode asset_package =
     (if endswith asset_package ''.tar.gz'' \<or> endswith asset_package ''.tgz'' then Inr Gz
      else if endswith asset_package ''tar.bz2'' \<or> endswith asset_package ''.tbz'' then Inr Bz2
      else Inl (UnsupportedArchiveFormat asset_package))"

text \<open>
  \<^verbatim>\<open>archive.extractall(asset_dir)\<close>: every member, in the archive's order, is written
  at \<^verbatim>\<open>os.path.join(asset_dir, member.name)\<close>.
\<close>

definition member_node :: "tarinfo \<Rightarrow> node" where
  "member_node m = (if tarinfo_isdir m then Dir else File (tarinfo_data m))"

fun extractall :: "string \<Rightarrow> tarinfo list \<Rightarrow> state \<Rightarrow> state" where
  "extractall d [] st = st"
| "extractall d (m # ms) st =
     extractall d ms (write_node (path_join d (tarinfo_name m)) (member_node m) st)"

definition extract_asset :: "env \<Rightarrow> string \<Rightarrow> state \<Rightarrow> (error + string) \<times> state" where
  "extract_asset env asset_package st =
     (case archive_mode asset_package of
        Inl e \<Rightarrow> (Inl e, st)
      | Inr mode \<Rightarrow>
        (case open_rb st asset_package of
           Inl e \<Rightarrow> (Inl e, st)
         | Inr bytes \<Rightarrow>
           (case tarfile_open env mode bytes of
              Inl e \<Rightarrow> (Inl e, st)
            | Inr members \<Rightarrow>
              (let asset_dir = dirname asset_package;
                   root_dirname = find tarinfo_isdir members;
                   st1 = extractall asset_dir members st
               in case root_dirname of
                    None \<Rightarrow> (Inl AttributeError, st1)
                  | Some r \<Rightarrow> (Inr (path_join asset_dir (tarinfo_name r)), st1)))))"

subsection \<open>system\_facts\<close>

definition architecture_map :: "(string \<times> string) list" where
  "architecture_map =
     [(''AMD64'', ''x64''), (''x86_64'', ''x64''), (''i386'', ''x32''), (''x86'', ''x86'')]"

record facts =
  platform :: string
  machine :: string
  architecture :: "string option"

definition system_facts :: "env \<Rightarrow> facts" where
  "system_facts env =
     \<lparr>platform = host_system env, machine = host_machine env,
      architecture = map_of architecture_map (host_machine env)\<rparr>"

subsection \<open>get\_jdk\<close>

text \<open>\<^verbatim>\<open>shutil.copy(src, dst)\<close>: into \<open>dst\<close> when it is a directory.\<close>

definition copy :: "string \<Rightarrow> string \<Rightarrow> state \<Rightarrow> error + state" where
  "copy src dst st =
     (let target = (if fs st dst = Some Dir then path_join dst (basename src) else dst)
      in case open_rb st src of
           Inl e \<Rightarrow> Inl e
         | Inr bytes \<Rightarrow>
           if writable st target then Inr (write_node target (File bytes) st)
           else Inl OSError)"

text \<open>
  The body of the \<^verbatim>\<open>with tempfile.TemporaryDirectory() as tmpdirname\<close> block, for
  one version: it builds the dict \<open>asset\<close> key by key.
\<close>

definition stage_asset ::
  "env \<Rightarrow> string \<Rightarrow> string \<Rightarrow> json \<Rightarrow> string \<Rightarrow> state \<Rightarrow> (error + asset) \<times> state" where
  "stage_asset env asset_dir ver java_package tmpdirname st0 =
     (let st = emit (Print (''created temporary directory [java '' @ ver @ '']: '' @ tmpdirname)) st0
      in case getitem java_package ''name'' of
        Inl e \<Rightarrow> (Inl e, st)
      | Inr name \<Rightarrow>
      (case getitem java_package ''checksum'' of
        Inl e \<Rightarrow> (Inl e, st)
      | Inr checksum \<Rightarrow>
      (case getitem java_package ''signature_link'' of
        Inl e \<Rightarrow> (Inl e, st)
      | Inr signature_link \<Rightarrow>
      (case download_asset env signature_link tmpdirname st of
        (Inl e, st1) \<Rightarrow> (Inl e, st1)
      | (Inr signature, st1) \<Rightarrow>
      (case getitem java_package ''link'' of
        Inl e \<Rightarrow> (Inl e, st1)
      | Inr link \<Rightarrow>
      (case download_asset env link tmpdirname st1 of
        (Inl e, st2) \<Rightarrow> (Inl e, st2)
      | (Inr package, st2) \<Rightarrow>
      (let asset = setitem ''package'' (JStr package)
                     (setitem ''signature'' (JStr signature)
                       (setitem ''checksum'' checksum
                         (setitem ''name'' name [])))
       in case verify_asset env asset st2 of
         Inl e \<Rightarrow> (Inl e, st2)
       | Inr ok \<Rightarrow>
         if \<not> ok then (Inl (ChecksumMismatch ver), st2)
         else
           (case name of
              JStr n \<Rightarrow>
                (case copy package (path_join asset_dir n) st2 of
                   Inl e \<Rightarrow> (Inl e, st2)
                 | Inr st3 \<Rightarrow>
                   (Inr (setitem ''path'' (JStr (path_join asset_dir n)) asset), st3))
            | _ \<Rightarrow> (Inl TypeError, st2)))))))))"

text \<open>The loop \<^verbatim>\<open>for ver in java_versions\<close>, with the list \<open>assets\<close> built so far.\<close>

fun process_versions ::
  "env \<Rightarrow> string \<Rightarrow> string \<Rightarrow> string list \<Rightarrow> asset list \<Rightarrow> state \<Rightarrow> (error + asset list) \<times> state" where
  "process_versions env asset_dir arch [] assets st = (Inr assets, st)"
| "process_versions env asset_dir arch (ver # vers) assets st =
     (case fetch_adoptium env ver arch st of
        (Inl e, st1) \<Rightarrow> (Inl e, st1)
      | (Inr java_asset, st1) \<Rightarrow>
      (case getitem java_asset ''binary'' of
        Inl e \<Rightarrow> (Inl e, st1)
      | Inr binary \<Rightarrow>
      (case getitem binary ''package'' of
        Inl e \<Rightarrow> (Inl e, st1)
      | Inr java_package \<Rightarrow>
      (case get_method java_package ''checksum'' of
        Inl e \<Rightarrow> (Inl e, st1)
      | Inr c \<Rightarrow>
        if c = JNull
        then process_versions env asset_dir arch vers assets
               (emit (Print ''skipping, no checksum provided'') st1)
        else
          (let tmpdirname = mkdtemp env (tmp_count st1);
               st2 = write_node tmpdirname Dir (st1\<lparr>tmp_count := Suc (tmp_count st1)\<rparr>)
           in case stage_asset env asset_dir ver java_package tmpdirname st2 of
                (Inl e, st3) \<Rightarrow> (Inl e, cleanup tmpdirname st3)
              | (Inr asset, st3) \<Rightarrow>
                process_versions env asset_dir arch vers (assets @ [asset])
                  (cleanup tmpdirname st3))))))"

declare process_versions.simps(2) [simp del]

definition java_versions :: "string list" where
  "java_versions = [''11'', ''16'']"

definition get_jdk :: "env \<Rightarrow> string \<Rightarrow> state \<Rightarrow> (error + asset list) \<times> state" where
  "get_jdk env asset_dir st =
     (let sys_facts = system_facts env
      in case architecture sys_facts of
           None \<Rightarrow> (Inl UnsupportedArchitecture, st)
         | Some arch \<Rightarrow> process_versions env asset_dir arch java_versions [] st)"

subsection \<open>The main program\<close>

record args =
  arg_directory :: string
  arg_o :: "string option"

text \<open>\<^verbatim>\<open>os.makedirs(dir_path, exist_ok=True)\<close>.\<close>

definition makedirs :: "string \<Rightarrow> state \<Rightarrow> error + state" where
  "makedirs p st =
     (case fs st p of
        None \<Rightarrow> Inr (write_node p Dir st)
      | Some Dir \<Rightarrow> Inr st
      | Some _ \<Rightarrow> Inl OSError)"

text \<open>The body of the \<^verbatim>\<open>try\<close> in the extraction loop.\<close>

definition extract_step :: "env \<Rightarrow> asset \<Rightarrow> state \<Rightarrow> (error + asset) \<times> state" where
  "extract_step env asset st =
     (case dict_getitem asset ''path'' of
        Inl e \<Rightarrow> (Inl e, st)
      | Inr (JStr p) \<Rightarrow>
        (case extract_asset env p st of
           (Inl e, st1) \<Rightarrow> (Inl e, st1)
         | (Inr root, st1) \<Rightarrow> (Inr (setitem ''path'' (JStr root) asset), st1))
      | Inr _ \<Rightarrow> (Inl AttributeError, st))"

text \<open>The loop \<^verbatim>\<open>for asset in assets\<close>, with the list \<open>extracted_assets\<close> so far.\<close>

fun extract_loop :: "env \<Rightarrow> asset list \<Rightarrow> asset list \<Rightarrow> state \<Rightarrow> asset list \<times> state" where
  "extract_loop env [] extracted_assets st = (extracted_assets, st)"
| "extract_loop env (asset # assets) extracted_assets st =
     (case extract_step env asset st of
        (Inl ex, st1) \<Rightarrow> extract_loop env assets extracted_assets (emit (PrintExc ex) st1)
      | (Inr asset', st1) \<Rightarrow> extract_loop env assets (extracted_assets @ [asset']) st1)"

text \<open>
  The dump of the list: printed when no output file is named, written to the file
  otherwise. When the file cannot be opened the error is printed and the
  \<^verbatim>\<open>finally\<close> clause then fails on the unbound \<^verbatim>\<open>outputFile\<close>. The result of a run
  that emits a document is that document.
\<close>

definition dump_assets :: "string option \<Rightarrow> asset list \<Rightarrow> state \<Rightarrow> (error + json) \<times> state" where
  "dump_assets out extracted_assets st =
     (let doc = JArr (map JObj extracted_assets)
      in case out of
           None \<Rightarrow> (Inr doc, emit (Dump doc) st)
         | Some path \<Rightarrow>
           if path = [] then (Inr doc, emit (Dump doc) st)
           else if writable st path then (Inr doc, write_node path (Doc doc) st)
           else (Inl NameError, emit (PrintExc OSError) st))"

definition main :: "env \<Rightarrow> args \<Rightarrow> state \<Rightarrow> (error + json) \<times> state" where
  "main env args st =
     (let dir_path = abspath env (arg_directory args)
      in case makedirs dir_path st of
           Inl e \<Rightarrow> (Inl e, st)
         | Inr st1 \<Rightarrow>
           (case get_jdk env dir_path st1 of
              (Inl e, st2) \<Rightarrow> (Inl e, st2)
            | (Inr assets, st2) \<Rightarrow>
              (case extract_loop env assets [] st2 of
                 (extracted_assets, st3) \<Rightarrow> dump_assets (arg_o args) extracted_assets st3)))"

subsection \<open>A small world to run the script in\<close>

text \<open>
  A catalog that serves two entries for version 11 (the last one complete) and one
  entry without a checksum for version 16, a package of three bytes with its
  signature, and a digest that gives the package the checksum the catalog declares.
\<close>

definition demo_entry :: "(string \<times> json) list \<Rightarrow> json" where
  "demo_entry pkg = JObj [(''binary'', JObj [(''package'', JObj pkg)])]"

definition demo_package :: "(string \<times> json) list" where
  "demo_package =
     [(''checksum'', JStr ''abCD''), (''link'', JStr ''https://example.org/jdk11''),
      (''name'', JStr ''jdk11.tar.gz''),
      (''signature_link'', JStr ''https://example.org/jdk11.sig'')]"

definition demo_members :: "tarinfo list" where
  "demo_members =
     [\<lparr>tarinfo_name = ''jdk-11/release'', tarinfo_isdir = False, tarinfo_data = [7]\<rparr>,
      \<lparr>tarinfo_name = ''jdk-11'', tarinfo_isdir = True, tarinfo_data = []\<rparr>,
      \<lparr>tarinfo_name = ''jdk-11/bin'', tarinfo_isdir = True, tarinfo_data = []\<rparr>]"

definition flat_members :: "tarinfo list" where
  "flat_members =
     [\<lparr>tarinfo_name = ''release'', tarinfo_isdir = False, tarinfo_data = [7]\<rparr>,
      \<lparr>tarinfo_name = ''java'', tarinfo_isdir = False, tarinfo_data = [8]\<rparr>]"

definition demo_env :: env where
  "demo_env =
     \<lparr>host_system = ''Linux'', host_machine = ''x86_64'',
      urlopen = (\<lambda>u.
        if u = api_url ''11'' ''x64'' then Inr \<lparr>resp_filename = None, resp_body = [11]\<rparr>
        else if u = api_url ''16'' ''x64'' then Inr \<lparr>resp_filename = None, resp_body = [16]\<rparr>
        else if u = ''https://example.org/jdk11''
          then Inr \<lparr>resp_filename = Some ''jdk11.tar.gz'', resp_body = [1, 2, 3]\<rparr>
        else if u = ''https://example.org/jdk11.sig''
          then Inr \<lparr>resp_filename = Some ''jdk11.tar.gz.sig'', resp_body = [9]\<rparr>
        else Inl OSError),
      json_loads = (\<lambda>b.
        if b = [11] then Inr (JArr [demo_entry [], demo_entry demo_package])
        else if b = [16] then Inr (JArr [demo_entry [(''name'', JStr ''jdk16.tar.gz'')]])
        else Inl ValueError),
      sha256 = (\<lambda>b. if b = [1, 2, 3] then [0xAB, 0xCD] else []),
      tarfile_open = (\<lambda>m b. if m = Gz \<and> b = [1, 2, 3] then Inr demo_members else Inl OSError),
      mkdtemp = (\<lambda>n. ''/tmp/tmp'' @ replicate n (CHR ''x'')),
      abspath = (\<lambda>p. p)\<rparr>"

definition demo_args :: args where
  "demo_args = \<lparr>arg_directory = ''/opt/jdk'', arg_o = None\<rparr>"

definition init_state :: state where
  "init_state = \<lparr>fs = (\<lambda>p. None), log = [], tmp_count = 0\<rparr>"

text \<open>The destination directory with the version 11 package already copied into it.\<close>

definition staged_state :: state where
  "staged_state =
     write_node ''/opt/jdk/jdk11.tar.gz'' (File [1, 2, 3]) (write_node ''/opt/jdk'' Dir init_state)"

text \<open>The asset \<open>get_jdk\<close> builds for version 11 in that world.\<close>

definition demo_asset :: asset where
  "demo_asset =
     [(''name'', JStr ''jdk11.tar.gz''), (''checksum'', JStr ''abCD''),
      (''signature'', JStr ''/tmp/tmp/jdk11.tar.gz.sig''),
      (''package'', JStr ''/tmp/tmp/jdk11.tar.gz''),
      (''path'', JStr ''/opt/jdk/jdk11.tar.gz'')]"

text \<open>The same world with a digest that no longer matches the declared checksum.\<close>

definition tampered_env :: env where
  "tampered_env = demo_env\<lparr>sha256 := \<lambda>b. []\<rparr>"

text \<open>The same world with a catalog whose only entry has no signature link.\<close>

definition unsigned_package :: "(string \<times> json) list" where
  "unsigned_package =
     [(''checksum'', JStr ''abCD''), (''link'', JStr ''https://example.org/jdk11''),
      (''name'', JStr ''jdk11.tar.gz'')]"

definition unsigned_env :: env where
  "unsigned_env = demo_env\<lparr>json_loads := \<lambda>b. Inr (JArr [demo_entry unsigned_package])\<rparr>"

text \<open>
  The same world with a catalog that serves, for version 11, a package named as a zip
  file, and for version 16 the complete package.
\<close>

definition zip_package :: "(string \<times> json) list" where
  "zip_package =
     [(''checksum'', JStr ''abCD''), (''link'', JStr ''https://example.org/jdk11''),
      (''name'', JStr ''jdk11.zip''),
      (''signature_link'', JStr ''https://example.org/jdk11.sig'')]"

definition mixed_env :: env where
  "mixed_env =
     demo_env\<lparr>json_loads := \<lambda>b.
       if b = [11] then Inr (JArr [demo_entry zip_package])
       else Inr (JArr [demo_entry demo_package])\<rparr>"

definition zip_asset :: asset where
  "zip_asset =
     [(''name'', JStr ''jdk11.zip''), (''checksum'', JStr ''abCD''),
      (''signature'', JStr ''/tmp/tmp/jdk11.tar.gz.sig''),
      (''package'', JStr ''/tmp/tmp/jdk11.tar.gz''),
      (''path'', JStr ''/opt/jdk/jdk11.zip'')]"

definition tar_asset :: asset where
  "tar_asset =
     [(''name'', JStr ''jdk11.tar.gz''), (''checksum'', JStr ''abCD''),
      (''signature'', JStr ''/tmp/tmpx/jdk11.tar.gz.sig''),
      (''package'', JStr ''/tmp/tmpx/jdk11.tar.gz''),
      (''path'', JStr ''/opt/jdk/jdk11.tar.gz'')]"

definition file_args :: args where
  "file_args = \<lparr>arg_directory = ''/opt/jdk'', arg_o = Some ''/opt/out.json''\<rparr>"

section \<open>Properties\<close>

subsection \<open>Evaluating the small world\<close>

lemma demo_urls:
  "api_url ''11'' ''x64'' =
     ''https://api.adoptium.net/v3/assets/latest/11/hotspot?architecture=x64&image_type=jdk&os=linux&vendor=eclipse''"
  "api_url ''16'' ''x64'' =
     ''https://api.adoptium.net/v3/assets/latest/16/hotspot?architecture=x64&image_type=jdk&os=linux&vendor=eclipse''"
  by (simp_all add: api_url_def quote_plus_def always_safe_def)

lemmas demo_defs =
  demo_env_def demo_args_def init_state_def staged_state_def demo_entry_def demo_package_def
  demo_members_def flat_members_def demo_asset_def tampered_env_def unsigned_package_def
  unsigned_env_def zip_package_def mixed_env_def zip_asset_def tar_asset_def file_args_def

lemmas script_defs =
  get_jdk_def system_facts_def architecture_map_def java_versions_def Let_def
  fetch_adoptium_def emit_def select_asset_def py_len_def getitem_last_def list_position_def
  getitem_def dict_getitem_def get_method_def write_node_def stage_asset_def download_asset_def
  path_join_def writable_def verify_asset_def hex_decode_def hex_val_def open_rb_def copy_def
  cleanup_def is_under_def

subsection \<open>The integrity verifier\<close>

text \<open>
  The reading loop feeds the hash object the whole file, whatever the chunk size, so
  \<open>verify_asset\<close> compares the decoded checksum with the digest of the full contents.
\<close>

lemma read_loop_append: "read_loop rest h = h @ rest"
proof (induction rest h rule: read_loop.induct)
  case (1 rest h)
  show ?case
  proof (cases "take chunk_size rest = []")
    case True
    then have "rest = []" by (simp add: chunk_size_def)
    then show ?thesis by (simp add: read_loop.simps)
  next
    case False
    have "read_loop rest h = read_loop (drop chunk_size rest) (h @ take chunk_size rest)"
      using False by (subst read_loop.simps) (simp add: Let_def)
    also have "\<dots> = (h @ take chunk_size rest) @ drop chunk_size rest"
      using "1.IH" [OF refl False] .
    finally show ?thesis by simp
  qed
qed

lemma verify_asset_digest:
  assumes "dict_getitem asset ''checksum'' = Inr (JStr c)"
      and "unhexlify c = Some checksum"
      and "dict_getitem asset ''package'' = Inr (JStr p)"
      and "fs st p = Some (File contents)"
  shows "verify_asset env asset st = Inr (checksum = sha256 env contents)"
  using assms by (simp add: verify_asset_def hex_decode_def open_rb_def read_loop_append)

subsection \<open>The catalog client\<close>

lemma list_position_last: "0 < n \<Longrightarrow> list_position n (- 1) = Some (n - 1)"
  by (auto simp: list_position_def Let_def)

lemma select_asset_empty: "select_asset (JArr []) = Inl CatalogEmpty"
  by (simp add: select_asset_def py_len_def)

lemma select_asset_last: "xs \<noteq> [] \<Longrightarrow> select_asset (JArr xs) = Inr (last xs)"
  by (simp add: select_asset_def py_len_def getitem_last_def list_position_last)
     (simp add: last_conv_nth)

text \<open>
  C2 (amended). For every catalog response array, \<open>fetch_adoptium\<close> fails with
  CatalogEmpty when the array has zero elements, and when the array has \<open>N > 0\<close>
  elements it returns element \<open>N - 1\<close>, the last one: \<^verbatim>\<open>data[-1]\<close> denotes position
  \<open>N - 1\<close>, which is not position 0 as soon as the array has two elements or more.
\<close>

theorem fetch_adoptium_selects_last:
  assumes "urlopen env (api_url version arch) = Inr r"
      and "json_loads env (resp_body r) = Inr (JArr xs)"
  shows "(xs = [] \<longrightarrow>
            fetch_adoptium env version arch st =
              (Inl CatalogEmpty, emit (Request (api_url version arch)) st)) \<and>
         (xs \<noteq> [] \<longrightarrow>
            fetch_adoptium env version arch st =
              (Inr (xs ! (length xs - 1)), emit (Request (api_url version arch)) st) \<and>
            list_position (length xs) (- 1) = Some (length xs - 1) \<and>
            (2 \<le> length xs \<longrightarrow> list_position (length xs) (- 1) \<noteq> Some 0))"
  using assms
  by (auto simp: fetch_adoptium_def Let_def select_asset_empty select_asset_last
      list_position_last last_conv_nth)

theorem fetch_adoptium_selects_last_witness:
  "urlopen demo_env (api_url ''11'' ''x64'') = Inr \<lparr>resp_filename = None, resp_body = [11]\<rparr> \<and>
   json_loads demo_env [11] = Inr (JArr [demo_entry [], demo_entry demo_package]) \<and>
   fetch_adoptium demo_env ''11'' ''x64'' init_state =
     (Inr (demo_entry demo_package), emit (Request (api_url ''11'' ''x64'')) init_state) \<and>
   list_position 2 (- 1) = Some 1 \<and>
   json_loads (demo_env\<lparr>json_loads := \<lambda>b. Inr (JArr [])\<rparr>) [11] = Inr (JArr []) \<and>
   fetch_adoptium (demo_env\<lparr>json_loads := \<lambda>b. Inr (JArr [])\<rparr>) ''11'' ''x64'' init_state =
     (Inl CatalogEmpty, emit (Request (api_url ''11'' ''x64'')) init_state)"
  using fetch_adoptium_selects_last
      [where env = demo_env and version = "''11''" and arch = "''x64''"
         and r = "\<lparr>resp_filename = None, resp_body = [11]\<rparr>"
         and xs = "[demo_entry [], demo_entry demo_package]" and st = init_state]
    fetch_adoptium_selects_last
      [where env = "demo_env\<lparr>json_loads := \<lambda>b. Inr (JArr [])\<rparr>" and version = "''11''"
         and arch = "''x64''" and r = "\<lparr>resp_filename = None, resp_body = [11]\<rparr>"
         and xs = "[]" and st = init_state]
  by (simp add: demo_env_def list_position_def)

text \<open>
  With a single element in the array, the element returned is element 0: the
  position \<^verbatim>\<open>-1\<close> denotes is 0 there.
\<close>

theorem fetch_adoptium_single_element:
  "fetch_adoptium (demo_env\<lparr>json_loads := \<lambda>b. Inr (JArr [JStr ''only''])\<rparr>) ''11'' ''x64'' init_state =
     (Inr ([JStr ''only''] ! 0), emit (Request (api_url ''11'' ''x64'')) init_state) \<and>
   list_position (length [JStr ''only'']) (- 1) = Some 0"
  by (simp add: fetch_adoptium_def demo_env_def select_asset_def py_len_def getitem_last_def
      list_position_def)

subsection \<open>The archive extractor\<close>

lemma endswith_longer:
  "endswith s (c # suf) \<Longrightarrow> endswith s suf"
proof -
  assume a: "endswith s (c # suf)"
  then have len: "Suc (length suf) \<le> length s"
    and eq: "drop (length s - Suc (length suf)) s = c # suf"
    by (simp_all add: endswith_def)
  have "drop (length s - length suf) s = drop 1 (drop (length s - Suc (length suf)) s)"
    using len by (simp add: Suc_diff_Suc)
  with eq len show ?thesis by (simp add: endswith_def)
qed

lemma archive_mode_gz:
  "endswith p ''.tar.gz'' \<or> endswith p ''.tgz'' \<Longrightarrow> archive_mode p = Inr Gz"
  by (simp add: archive_mode_def)

lemma archive_mode_bz2:
  assumes "\<not> endswith p ''.tar.gz''" "\<not> endswith p ''.tgz''"
      and "endswith p ''.tar.bz2'' \<or> endswith p ''.tbz''"
  shows "archive_mode p = Inr Bz2"
  using assms endswith_longer [of p "CHR ''.''" "''tar.bz2''"]
  by (auto simp: archive_mode_def)

lemma archive_mode_error:
  "archive_mode p = Inl e \<longleftrightarrow>
     e = UnsupportedArchiveFormat p \<and> \<not> endswith p ''.tar.gz'' \<and> \<not> endswith p ''.tgz'' \<and>
     \<not> endswith p ''tar.bz2'' \<and> \<not> endswith p ''.tbz''"
  by (auto simp: archive_mode_def)

text \<open>
  C4. The claim: every file name that ends in none of \<^verbatim>\<open>.tar.gz\<close>, \<^verbatim>\<open>.tgz\<close>,
  \<^verbatim>\<open>.tar.bz2\<close>, \<^verbatim>\<open>.tbz\<close> is refused with UnsupportedArchiveFormat. The script tests
  for \<^verbatim>\<open>tar.bz2\<close> without the leading dot, so a name such as \<^verbatim>\<open>jdktar.bz2\<close>, which ends
  in none of the four suffixes, is opened as a bzip2 archive.
\<close>

theorem archive_mode_dotless_bz2:
  "archive_mode ''/opt/jdk/jdktar.bz2'' = Inr Bz2 \<and>
   \<not> endswith ''/opt/jdk/jdktar.bz2'' ''.tar.gz'' \<and>
   \<not> endswith ''/opt/jdk/jdktar.bz2'' ''.tgz'' \<and>
   \<not> endswith ''/opt/jdk/jdktar.bz2'' ''.tar.bz2'' \<and>
   \<not> endswith ''/opt/jdk/jdktar.bz2'' ''.tbz''"
  by (simp add: archive_mode_def endswith_def)

lemma extractall_log [simp]: "log (extractall d ms st) = log st"
  by (induction ms arbitrary: st) (simp_all add: write_node_def)

lemma extractall_tmp_count [simp]: "tmp_count (extractall d ms st) = tmp_count st"
  by (induction ms arbitrary: st) (simp_all add: write_node_def)












subsection \<open>The platform resolver\<close>

text \<open>
  C7. The machine identifiers \<^verbatim>\<open>x86_64\<close> and \<^verbatim>\<open>AMD64\<close> resolve to the same token, and
  for an identifier outside the mapping \<open>get_jdk\<close> fails with UnsupportedArchitecture
  and leaves the state as it was: nothing was requested from the network. The whole
  program, once the destination directory is made, fails the same way with its log
  untouched.
\<close>

theorem platform_resolver:
  "(host_machine env = ''x86_64'' \<and> host_machine env' = ''AMD64'' \<longrightarrow>
      architecture (system_facts env) = architecture (system_facts env') \<and>
      architecture (system_facts env) = Some ''x64'') \<and>
   (host_machine env \<notin> fst ` set architecture_map \<longrightarrow>
      get_jdk env asset_dir st = (Inl UnsupportedArchitecture, st) \<and>
      (makedirs (abspath env (arg_directory args)) st = Inr st1 \<longrightarrow>
         main env args st = (Inl UnsupportedArchitecture, st1) \<and> log st1 = log st))"
proof -
  have same: "architecture (system_facts env) = Some ''x64''"
    "architecture (system_facts env') = Some ''x64''"
    if "host_machine env = ''x86_64''" "host_machine env' = ''AMD64''"
    using that by (simp_all add: system_facts_def architecture_map_def)
  have none: "architecture (system_facts e) = None"
    if "host_machine e \<notin> fst ` set architecture_map" for e :: env
    using that by (simp add: system_facts_def map_of_eq_None_iff)
  have jdk: "get_jdk e d s = (Inl UnsupportedArchitecture, s)"
    if "host_machine e \<notin> fst ` set architecture_map" for e :: env and d s
    using none [OF that] by (simp add: get_jdk_def)
  have run: "main env args st = (Inl UnsupportedArchitecture, st1) \<and> log st1 = log st"
    if "host_machine env \<notin> fst ` set architecture_map"
      and "makedirs (abspath env (arg_directory args)) st = Inr st1"
  proof -
    have "log st1 = log st"
      using that(2) by (auto simp: makedirs_def write_node_def split: option.splits node.splits)
    then show ?thesis
      using that(2) jdk [OF that(1)] by (simp add: main_def)
  qed
  show ?thesis
    using same jdk [of env asset_dir st] run by simp
qed

theorem platform_resolver_witness:
  "architecture (system_facts demo_env) = Some ''x64'' \<and>
   architecture (system_facts (demo_env\<lparr>host_machine := ''AMD64''\<rparr>)) = Some ''x64'' \<and>
   host_machine (demo_env\<lparr>host_machine := ''aarch64''\<rparr>) \<notin> fst ` set architecture_map \<and>
   get_jdk (demo_env\<lparr>host_machine := ''aarch64''\<rparr>) ''/opt/jdk'' init_state =
     (Inl UnsupportedArchitecture, init_state) \<and>
   makedirs ''/opt/jdk'' init_state = Inr (write_node ''/opt/jdk'' Dir init_state) \<and>
   main (demo_env\<lparr>host_machine := ''aarch64''\<rparr>) demo_args init_state =
     (Inl UnsupportedArchitecture, write_node ''/opt/jdk'' Dir init_state) \<and>
   log (write_node ''/opt/jdk'' Dir init_state) = []"
  using platform_resolver
      [where env = demo_env and env' = "demo_env\<lparr>host_machine := ''AMD64''\<rparr>"
         and asset_dir = "''/opt/jdk''" and st = init_state and args = demo_args
         and ?st1.0 = "write_node ''/opt/jdk'' Dir init_state"]
    platform_resolver
      [where env = "demo_env\<lparr>host_machine := ''aarch64''\<rparr>" and env' = demo_env
         and asset_dir = "''/opt/jdk''" and st = init_state and args = demo_args
         and ?st1.0 = "write_node ''/opt/jdk'' Dir init_state"]
  by (simp add: demo_defs architecture_map_def system_facts_def makedirs_def write_node_def)

subsection \<open>The orchestrator\<close>

lemma process_versions_append:
  "process_versions env d arch pre assets st = (Inr assets', st') \<Longrightarrow>
   process_versions env d arch (pre @ rest) assets st = process_versions env d arch rest assets' st'"
proof (induction pre arbitrary: assets st)
  case Nil
  then show ?case by simp
next
  case (Cons ver pre)
  show ?case
    using Cons.prems Cons.IH
    by (auto simp: process_versions.simps(2) Let_def split: prod.splits sum.splits if_splits)
qed

lemma cleanup_log [simp]: "log (cleanup d st) = log st"
  by (simp add: cleanup_def)

lemma get_method_present:
  "get_method x k = Inr c \<Longrightarrow> c \<noteq> JNull \<Longrightarrow> getitem x k = Inr c"
  by (auto simp: get_method_def getitem_def dict_getitem_def split: json.splits option.splits)

lemma stage_asset_mismatch:
  assumes "getitem java_package ''name'' = Inr name"
      and "getitem java_package ''checksum'' = Inr checksum"
      and "getitem java_package ''signature_link'' = Inr signature_link"
      and "download_asset env signature_link tmpdirname
             (emit (Print (''created temporary directory [java '' @ ver @ '']: '' @ tmpdirname)) st) =
           (Inr signature, st3)"
      and "getitem java_package ''link'' = Inr link"
      and "download_asset env link tmpdirname st3 = (Inr package, st4)"
      and "verify_asset env
             [(''name'', name), (''checksum'', checksum), (''signature'', JStr signature),
              (''package'', JStr package)] st4 = Inr False"
  shows "stage_asset env asset_dir ver java_package tmpdirname st = (Inl (ChecksumMismatch ver), st4)"
  using assms by (simp add: stage_asset_def Let_def)

lemma demo_first_version:
  "fst (process_versions demo_env ''/opt/jdk'' ''x64'' [''11''] []
          (write_node ''/opt/jdk'' Dir init_state)) = Inr [demo_asset]"
  "log (snd (process_versions demo_env ''/opt/jdk'' ''x64'' [''11''] []
          (write_node ''/opt/jdk'' Dir init_state))) =
     [Request (api_url ''11'' ''x64''),
      Print ''created temporary directory [java 11]: /tmp/tmp'',
      Request ''https://example.org/jdk11.sig'',
      Print ''downloading asset: https://example.org/jdk11.sig to /tmp/tmp/jdk11.tar.gz.sig'',
      Request ''https://example.org/jdk11'',
      Print ''downloading asset: https://example.org/jdk11 to /tmp/tmp/jdk11.tar.gz'']"
  "fs (snd (process_versions demo_env ''/opt/jdk'' ''x64'' [''11''] []
          (write_node ''/opt/jdk'' Dir init_state))) ''/opt/jdk/jdk11.tar.gz'' = Some (File [1, 2, 3])"
  by (simp_all add: process_versions.simps(2) script_defs demo_defs demo_urls read_loop_append)



text \<open>
  C3. The two checksum failures are handled differently. When the catalog entry of
  a version has no checksum, \<open>get_jdk\<close> goes on with the versions after it, the list
  of assets unchanged and the skip printed. When \<open>verify_asset\<close> returns false for a
  version, \<open>get_jdk\<close> fails with ChecksumMismatch for that version in the state the
  downloads of that version left (the temporary directory removed): no later version
  is fetched, and the program ends with that error and emits nothing.
\<close>

theorem checksum_failures_asymmetric:
  assumes "architecture (system_facts env) = Some arch"
      and "java_versions = pre @ ver # post"
      and "process_versions env asset_dir arch pre [] st = (Inr assets, st0)"
      and "fetch_adoptium env ver arch st0 = (Inr java_asset, st1)"
      and "getitem java_asset ''binary'' = Inr binary"
      and "getitem binary ''package'' = Inr java_package"
  shows "(get_method java_package ''checksum'' = Inr JNull \<longrightarrow>
            get_jdk env asset_dir st =
              process_versions env asset_dir arch post assets
                (emit (Print ''skipping, no checksum provided'') st1)) \<and>
         (get_method java_package ''checksum'' = Inr checksum \<and> checksum \<noteq> JNull \<and>
          tmpdirname = mkdtemp env (tmp_count st1) \<and>
          st2 = emit (Print (''created temporary directory [java '' @ ver @ '']: '' @ tmpdirname))
                  (write_node tmpdirname Dir (st1\<lparr>tmp_count := Suc (tmp_count st1)\<rparr>)) \<and>
          getitem java_package ''name'' = Inr name \<and>
          getitem java_package ''signature_link'' = Inr signature_link \<and>
          download_asset env signature_link tmpdirname st2 = (Inr signature, st3) \<and>
          getitem java_package ''link'' = Inr link \<and>
          download_asset env link tmpdirname st3 = (Inr package, st4) \<and>
          verify_asset env
            [(''name'', name), (''checksum'', checksum), (''signature'', JStr signature),
             (''package'', JStr package)] st4 = Inr False \<longrightarrow>
            get_jdk env asset_dir st = (Inl (ChecksumMismatch ver), cleanup tmpdirname st4) \<and>
            log (cleanup tmpdirname st4) = log st4 \<and>
            (asset_dir = abspath env (arg_directory args) \<and> makedirs asset_dir st_init = Inr st \<longrightarrow>
               main env args st_init = (Inl (ChecksumMismatch ver), cleanup tmpdirname st4)))"
proof -
  have "get_jdk env asset_dir st = process_versions env asset_dir arch (pre @ ver # post) [] st"
    using assms(1) by (simp add: get_jdk_def assms(2) [symmetric])
  then have jdk: "get_jdk env asset_dir st = process_versions env asset_dir arch (ver # post) assets st0"
    by (simp add: process_versions_append [OF assms(3)])
  have skip: "get_jdk env asset_dir st =
      process_versions env asset_dir arch post assets
        (emit (Print ''skipping, no checksum provided'') st1)"
    if "get_method java_package ''checksum'' = Inr JNull"
    using that assms(4-6) by (simp add: jdk process_versions.simps(2))
  have abort: "get_jdk env asset_dir st = (Inl (ChecksumMismatch ver), cleanup tmpdirname st4)"
    if "get_method java_package ''checksum'' = Inr checksum" "checksum \<noteq> JNull"
      "tmpdirname = mkdtemp env (tmp_count st1)"
      "st2 = emit (Print (''created temporary directory [java '' @ ver @ '']: '' @ tmpdirname))
                  (write_node tmpdirname Dir (st1\<lparr>tmp_count := Suc (tmp_count st1)\<rparr>))"
      "getitem java_package ''name'' = Inr name"
      "getitem java_package ''signature_link'' = Inr signature_link"
      "download_asset env signature_link tmpdirname st2 = (Inr signature, st3)"
      "getitem java_package ''link'' = Inr link"
      "download_asset env link tmpdirname st3 = (Inr package, st4)"
      "verify_asset env
            [(''name'', name), (''checksum'', checksum), (''signature'', JStr signature),
             (''package'', JStr package)] st4 = Inr False"
  proof -
    have "stage_asset env asset_dir ver java_package tmpdirname
            (write_node tmpdirname Dir (st1\<lparr>tmp_count := Suc (tmp_count st1)\<rparr>)) =
          (Inl (ChecksumMismatch ver), st4)"
      using that get_method_present [OF that(1,2)]
      by (intro stage_asset_mismatch) simp_all
    then show ?thesis
      using that(1-3) assms(4-6) by (simp add: jdk process_versions.simps(2) Let_def)
  qed
  have run: "main env args st_init = (Inl e, s)"
    if "get_jdk env asset_dir st = (Inl e, s)" "asset_dir = abspath env (arg_directory args)"
      "makedirs asset_dir st_init = Inr st" for e s
    using that by (simp add: main_def)
  show ?thesis
  proof (intro conjI impI, goal_cases)
    case 1
    then show ?case by (rule skip)
  next
    case 2
    then show ?case by (elim conjE) (rule abort; assumption)
  next
    case 3
    show ?case by simp
  next
    case 4
    from 4(1) have "get_jdk env asset_dir st = (Inl (ChecksumMismatch ver), cleanup tmpdirname st4)"
      by (elim conjE) (rule abort; assumption)
    with 4(2) show ?case by (elim conjE) (rule run; assumption)
  qed
qed


theorem checksum_failures_asymmetric_witness:
  "fst (get_jdk demo_env ''/opt/jdk'' (write_node ''/opt/jdk'' Dir init_state)) = Inr [demo_asset] \<and>
   log (snd (get_jdk demo_env ''/opt/jdk'' (write_node ''/opt/jdk'' Dir init_state))) =
     [Request (api_url ''11'' ''x64''),
      Print ''created temporary directory [java 11]: /tmp/tmp'',
      Request ''https://example.org/jdk11.sig'',
      Print ''downloading asset: https://example.org/jdk11.sig to /tmp/tmp/jdk11.tar.gz.sig'',
      Request ''https://example.org/jdk11'',
      Print ''downloading asset: https://example.org/jdk11 to /tmp/tmp/jdk11.tar.gz'',
      Request (api_url ''16'' ''x64''),
      Print ''skipping, no checksum provided''] \<and>
   fst (main tampered_env demo_args init_state) = Inl (ChecksumMismatch ''11'') \<and>
   log (snd (main tampered_env demo_args init_state)) =
     [Request (api_url ''11'' ''x64''),
      Print ''created temporary directory [java 11]: /tmp/tmp'',
      Request ''https://example.org/jdk11.sig'',
      Print ''downloading asset: https://example.org/jdk11.sig to /tmp/tmp/jdk11.tar.gz.sig'',
      Request ''https://example.org/jdk11'',
      Print ''downloading asset: https://example.org/jdk11 to /tmp/tmp/jdk11.tar.gz'']"
proof -
  let ?s = "write_node ''/opt/jdk'' Dir init_state"
  let ?sa = "snd (process_versions demo_env ''/opt/jdk'' ''x64'' [''11''] [] ?s)"
  let ?sb = "emit (Request (api_url ''16'' ''x64'')) ?sa"
  let ?entry = "demo_entry [(''name'', JStr ''jdk16.tar.gz'')]"
  have arch: "architecture (system_facts demo_env) = Some ''x64''"
    by (simp add: system_facts_def architecture_map_def demo_env_def)
  have first: "process_versions demo_env ''/opt/jdk'' ''x64'' [''11''] [] ?s = (Inr [demo_asset], ?sa)"
    using demo_first_version(1) by (simp add: prod_eq_iff)
  have fetch: "fetch_adoptium demo_env ''16'' ''x64'' ?sa = (Inr ?entry, ?sb)"
    by (simp add: fetch_adoptium_def select_asset_def py_len_def getitem_last_def
        list_position_def demo_env_def demo_urls)
  have skipped: "get_jdk demo_env ''/opt/jdk'' ?s =
      process_versions demo_env ''/opt/jdk'' ''x64'' [] [demo_asset]
        (emit (Print ''skipping, no checksum provided'') ?sb)"
    using checksum_failures_asymmetric
      [where env = demo_env and arch = "''x64''" and pre = "[''11'']" and ver = "''16''"
         and post = "[]" and asset_dir = "''/opt/jdk''" and st = ?s and assets = "[demo_asset]"
         and ?st0.0 = ?sa and java_asset = ?entry and ?st1.0 = ?sb
         and binary = "JObj [(''package'', JObj [(''name'', JStr ''jdk16.tar.gz'')])]"
         and java_package = "JObj [(''name'', JStr ''jdk16.tar.gz'')]",
       OF arch _ first fetch]
    by (simp add: java_versions_def demo_entry_def getitem_def dict_getitem_def get_method_def)
  let ?ta = "emit (Request (api_url ''11'' ''x64'')) ?s"
  let ?tb = "emit (Print (''created temporary directory [java '' @ ''11'' @ '']: '' @ ''/tmp/tmp''))
               (write_node ''/tmp/tmp'' Dir (?ta\<lparr>tmp_count := Suc (tmp_count ?ta)\<rparr>))"
  let ?tc = "snd (download_asset tampered_env (JStr ''https://example.org/jdk11.sig'') ''/tmp/tmp'' ?tb)"
  let ?td = "snd (download_asset tampered_env (JStr ''https://example.org/jdk11'') ''/tmp/tmp'' ?tc)"
  have arch': "architecture (system_facts tampered_env) = Some ''x64''"
    by (simp add: system_facts_def architecture_map_def demo_defs)
  have fetch': "fetch_adoptium tampered_env ''11'' ''x64'' ?s = (Inr (demo_entry demo_package), ?ta)"
    by (simp add: fetch_adoptium_def select_asset_def py_len_def getitem_last_def
        list_position_def demo_env_def tampered_env_def demo_urls)
  have sig: "download_asset tampered_env (JStr ''https://example.org/jdk11.sig'') ''/tmp/tmp'' ?tb =
      (Inr ''/tmp/tmp/jdk11.tar.gz.sig'', ?tc)"
    by (simp add: prod_eq_iff script_defs demo_defs demo_urls)
  have pkg: "download_asset tampered_env (JStr ''https://example.org/jdk11'') ''/tmp/tmp'' ?tc =
      (Inr ''/tmp/tmp/jdk11.tar.gz'', ?td)"
    by (simp add: prod_eq_iff script_defs demo_defs demo_urls)
  have verify: "verify_asset tampered_env
      [(''name'', JStr ''jdk11.tar.gz''), (''checksum'', JStr ''abCD''),
       (''signature'', JStr ''/tmp/tmp/jdk11.tar.gz.sig''),
       (''package'', JStr ''/tmp/tmp/jdk11.tar.gz'')] ?td = Inr False"
    by (simp add: script_defs demo_defs demo_urls read_loop_append)
  have logt4: "log ?td =
     [Request (api_url ''11'' ''x64''),
      Print ''created temporary directory [java 11]: /tmp/tmp'',
      Request ''https://example.org/jdk11.sig'',
      Print ''downloading asset: https://example.org/jdk11.sig to /tmp/tmp/jdk11.tar.gz.sig'',
      Request ''https://example.org/jdk11'',
      Print ''downloading asset: https://example.org/jdk11 to /tmp/tmp/jdk11.tar.gz'']"
    by (simp add: script_defs demo_defs demo_urls)
  have aborted: "main tampered_env demo_args init_state =
      (Inl (ChecksumMismatch ''11''), cleanup ''/tmp/tmp'' ?td)"
    using checksum_failures_asymmetric
      [where env = tampered_env and arch = "''x64''" and pre = "[]" and ver = "''11''"
         and post = "[''16'']" and asset_dir = "''/opt/jdk''" and st = ?s and assets = "[]"
         and ?st0.0 = ?s and java_asset = "demo_entry demo_package" and ?st1.0 = ?ta
         and binary = "JObj [(''package'', JObj demo_package)]"
         and java_package = "JObj demo_package" and checksum = "JStr ''abCD''"
         and tmpdirname = "''/tmp/tmp''" and ?st2.0 = ?tb and name = "JStr ''jdk11.tar.gz''"
         and signature_link = "JStr ''https://example.org/jdk11.sig''"
         and signature = "''/tmp/tmp/jdk11.tar.gz.sig''" and ?st3.0 = ?tc
         and link = "JStr ''https://example.org/jdk11''"
         and package = "''/tmp/tmp/jdk11.tar.gz''" and ?st4.0 = ?td
         and args = demo_args and st_init = init_state,
       OF arch' _ _ fetch']
      sig pkg verify
    by (simp add: java_versions_def demo_entry_def demo_package_def getitem_def dict_getitem_def
        get_method_def tampered_env_def demo_env_def demo_args_def init_state_def emit_def
        write_node_def makedirs_def)
  show ?thesis
    using skipped aborted demo_first_version(1,2) logt4
    by (simp add: emit_def)
qed

lemmas main_defs = main_def makedirs_def extract_step_def extract_asset_def archive_mode_def
  endswith_def dirname_def rstrip_slash_def member_node_def dump_assets_def

lemma getitem_missing: "map_of d k = None \<Longrightarrow> getitem (JObj d) k = Inl (KeyError k)"
  by (simp add: getitem_def dict_getitem_def)

lemma process_versions_unsigned:
  assumes "fetch_adoptium env ver arch st = (Inr java_asset, st1)"
      and "getitem java_asset ''binary'' = Inr binary"
      and "getitem binary ''package'' = Inr (JObj d)"
      and "map_of d ''checksum'' = Some c" "c \<noteq> JNull"
      and "map_of d ''name'' = Some n"
      and "map_of d ''signature_link'' = None"
  shows "process_versions env asset_dir arch (ver # vers) assets st =
           (Inl (KeyError ''signature_link''),
            cleanup (mkdtemp env (tmp_count st1))
              (emit (Print (''created temporary directory [java '' @ ver @ '']: '' @
                            mkdtemp env (tmp_count st1)))
                 (write_node (mkdtemp env (tmp_count st1)) Dir
                    (st1\<lparr>tmp_count := Suc (tmp_count st1)\<rparr>))))"
  using assms
  by (simp add: process_versions.simps(2) get_method_def stage_asset_def getitem_def
      dict_getitem_def Let_def)

text \<open>
  C8. The claim: an asset whose catalog entry has a checksum but no signature link is
  still processed, the signature being fetched only when its link is present. The
  script reads \<^verbatim>\<open>java_package['signature_link']\<close> unconditionally (the guard that
  skipped such an asset is commented out), so for an entry without that key the run
  ends with \<^verbatim>\<open>KeyError\<close> before anything is downloaded.
\<close>

theorem missing_signature_link_aborts:
  "fst (main unsigned_env demo_args init_state) = Inl (KeyError ''signature_link'') \<and>
   log (snd (main unsigned_env demo_args init_state)) =
     [Request (api_url ''11'' ''x64''),
      Print ''created temporary directory [java 11]: /tmp/tmp'']"
  by (simp add: main_defs process_versions.simps(2) script_defs demo_defs demo_urls)

subsection \<open>The extraction loop and the output\<close>

lemma demo_run:
  "fst (main demo_env demo_args init_state) =
     Inr (JArr [JObj [(''name'', JStr ''jdk11.tar.gz''), (''checksum'', JStr ''abCD''),
       (''signature'', JStr ''/tmp/tmp/jdk11.tar.gz.sig''),
       (''package'', JStr ''/tmp/tmp/jdk11.tar.gz''), (''path'', JStr ''/opt/jdk/jdk-11'')]])"
  by (simp add: main_defs process_versions.simps(2) script_defs demo_defs demo_urls read_loop_append)












end
